theory Spec2Isabelle
  imports Complex_Main
begin

section \<open>The GitHub App credential cache of \<^verbatim>\<open>server/utils/github/bot.py\<close>\<close>

text \<open>
  The class \<^verbatim>\<open>BaseGitHubApp\<close> caches two credentials, an app-level JWT and an
  installation access token obtained with it, each with the time it was created.
  The object is a record; everything outside the object that the methods read or
  change (the system clock, the process environment, the file system, the two library
  calls of the \<^verbatim>\<open>jwt\<close> package and the network) is a second record, the world.
  A method takes the object and the world and returns what it returns or raises,
  with the object and the world as it leaves them: an exception does not undo the
  assignments made before it.
\<close>

subsection \<open>Values\<close>

text \<open>
  What \<^verbatim>\<open>response.json()\<close> returns. \<open>JNull\<close> is Python's \<^verbatim>\<open>None\<close>; the members of
  an object are listed in document order.
\<close>

datatype json =
    JNull
  | JBool bool
  | JNum real
  | JStr string
  | JArr "json list"
  | JObj "(string \<times> json) list"

text \<open>The exceptions the methods raise or let through.\<close>

datatype exn =
    ValueError string  \<comment> \<open>raised by \<^verbatim>\<open>base_github_rest_api\<close> itself\<close>
  | OSError  \<comment> \<open>\<^verbatim>\<open>open\<close> of the private-key file fails\<close>
  | PemError  \<comment> \<open>\<^verbatim>\<open>jwk_from_pem\<close> rejects the file's contents\<close>
  | EncodeError  \<comment> \<open>\<^verbatim>\<open>JWT.encode\<close> fails\<close>
  | TransportError  \<comment> \<open>\<^verbatim>\<open>client.request\<close> fails\<close>
  | JSONDecodeError  \<comment> \<open>\<^verbatim>\<open>response.json()\<close> on a body that is not JSON\<close>
  | AttributeError  \<comment> \<open>\<^verbatim>\<open>res.get\<close> on a value that is not a dict\<close>

datatype jwk = RSAJWK string

record payload =
  iat :: int
  exp' :: int
  iss :: "string option"

text \<open>
  The arguments of \<^verbatim>\<open>client.request\<close>. \<^verbatim>\<open>method\<close> is an Isabelle keyword and \<open>exp\<close> is
  the exponential function, so the fields of a request carry the prefix \<open>req_\<close> and the
  claim \<^verbatim>\<open>exp\<close> is \<open>exp'\<close>.
\<close>

record http_request =
  req_method :: string
  req_url :: string
  req_headers :: "(string \<times> string) list"

record http_response =
  status_code :: nat
  json_body :: "json option"  \<comment> \<open>\<open>None\<close>: the body is not valid JSON\<close>

subsection \<open>The object and the world\<close>

text \<open>
  The fields of \<^verbatim>\<open>__init__\<close>. A leading underscore is not an Isabelle name, so
  \<^verbatim>\<open>_jwt\<close> is \<open>u_jwt\<close>, and so on. \<^verbatim>\<open>_installation_token\<close> holds whatever
  \<^verbatim>\<open>res.get("token", None)\<close> gave, which need not be a string.
\<close>

record app =
  app_id :: "string option"
  client_id :: "string option"
  installation_id :: string
  u_jwt_created_at :: "real option"
  u_jwt :: "string option"
  u_installation_token_created_at :: "real option"
  u_installation_token :: json
  u_user_token_created_at :: "real option"
  u_user_token :: "string option"

text \<open>
  The world. \<open>clock w n\<close> is what the \<open>n\<close>-th reading of the system clock returns and
  \<open>reads\<close> counts the readings made; \<open>net w n r\<close> is what the network answers to
  request \<open>r\<close> when \<open>n\<close> requests went out before it (\<open>None\<close>: no response).
  \<open>opened\<close>, \<open>signed\<close> and \<open>sent\<close> record, in order, the files opened, the claim
  sets given to \<^verbatim>\<open>JWT.encode\<close> and the requests sent.
\<close>

record world =
  clock :: "nat \<Rightarrow> real"
  reads :: nat
  environ :: "string \<Rightarrow> string option"
  files :: "string \<Rightarrow> string option"
  jwk_from_pem :: "string \<Rightarrow> jwk option"
  encode :: "payload \<Rightarrow> jwk \<Rightarrow> string \<Rightarrow> string option"
  py_repr :: "json \<Rightarrow> string"
  net :: "nat \<Rightarrow> http_request \<Rightarrow> http_response option"
  opened :: "string list"
  signed :: "(payload \<times> jwk \<times> string) list"
  sent :: "http_request list"

type_synonym 'a outcome = "(exn + 'a) \<times> app \<times> world"

text \<open>\<^verbatim>\<open>datetime.now().timestamp()\<close> and \<^verbatim>\<open>time.time()\<close>: one reading of the clock.\<close>

definition now :: "world \<Rightarrow> real \<times> world" where
  "now w = (clock w (reads w), w\<lparr>reads := Suc (reads w)\<rparr>)"

text \<open>\<^verbatim>\<open>int(x)\<close> on a float: truncation towards zero.\<close>

definition py_int :: "real \<Rightarrow> int" where
  "py_int x = (if 0 \<le> x then \<lfloor>x\<rfloor> else \<lceil>x\<rceil>)"

text \<open>
  \<^verbatim>\<open>str(x)\<close>, as the f-string \<^verbatim>\<open>f"Bearer {auth}"\<close> applies it. Python's rendering of
  numbers, lists and dicts is the world's \<open>py_repr\<close>.
\<close>

definition py_str :: "world \<Rightarrow> json \<Rightarrow> string" where
  "py_str w v =
    (case v of
       JStr s \<Rightarrow> s
     | JNull \<Rightarrow> ''None''
     | JBool b \<Rightarrow> (if b then ''True'' else ''False'')
     | _ \<Rightarrow> py_repr w v)"

text \<open>\<^verbatim>\<open>d.get(k, default)\<close> on a parsed JSON object: the last member named \<open>k\<close> wins.\<close>

definition dict_get :: "(string \<times> json) list \<Rightarrow> string \<Rightarrow> json \<Rightarrow> json" where
  "dict_get d k dflt = (case map_of (rev d) k of None \<Rightarrow> dflt | Some v \<Rightarrow> v)"

subsection \<open>The property \<^verbatim>\<open>jwt\<close>\<close>

text \<open>\<^verbatim>\<open>os.environ.get("GITHUB_APP_PRIVATE_KEY_PATH", "pem.pem")\<close>, line 80.\<close>

definition key_path :: "world \<Rightarrow> string" where
  "key_path w =
     (case environ w ''GITHUB_APP_PRIVATE_KEY_PATH'' of None \<Rightarrow> ''pem.pem'' | Some p \<Rightarrow> p)"

text \<open>
  Lines 77 to 95, the body of the \<^verbatim>\<open>if\<close>: the creation time is assigned first, then
  the key file is opened and parsed, the claim set is built from two further readings
  of the clock, and the signed token is assigned.
\<close>

definition jwt_mint :: "app \<Rightarrow> world \<Rightarrow> string outcome" where
  "jwt_mint a w =
    (let (t, w1) = now w;
         a1 = a\<lparr>u_jwt_created_at := Some t\<rparr>;
         path = key_path w1;
         w2 = w1\<lparr>opened := opened w1 @ [path]\<rparr>
     in case files w2 path of
          None \<Rightarrow> (Inl OSError, a1, w2)
        | Some pem \<Rightarrow>
            (case jwk_from_pem w2 pem of
               None \<Rightarrow> (Inl PemError, a1, w2)
             | Some signing_key \<Rightarrow>
                 (let (t1, w3) = now w2;
                      (t2, w4) = now w3;
                      p = \<lparr>iat = py_int t1, exp' = py_int t2 + 600, iss = app_id a1\<rparr>;
                      w5 = w4\<lparr>signed := signed w4 @ [(p, signing_key, ''RS256'')]\<rparr>
                  in case encode w5 p signing_key ''RS256'' of
                       None \<Rightarrow> (Inl EncodeError, a1, w5)
                     | Some tok \<Rightarrow> (Inr tok, a1\<lparr>u_jwt := Some tok\<rparr>, w5))))"

text \<open>
  The property: \<^verbatim>\<open>or\<close> evaluates left to right and stops at the first true operand,
  so the clock is read for the test only when both fields are set.
\<close>

definition jwt :: "app \<Rightarrow> world \<Rightarrow> string outcome" where
  "jwt a w =
    (case u_jwt a of
       None \<Rightarrow> jwt_mint a w
     | Some tok \<Rightarrow>
         (case u_jwt_created_at a of
            None \<Rightarrow> jwt_mint a w
          | Some c \<Rightarrow>
              (let (t, w1) = now w
               in if t - c > 60 * 10 then jwt_mint a w1 else (Inr tok, a, w1))))"

subsection \<open>\<^verbatim>\<open>base_github_rest_api\<close> and the property \<^verbatim>\<open>installation_token\<close>\<close>

text \<open>The message of the \<^verbatim>\<open>ValueError\<close> of line 48; it ends in an apostrophe.\<close>

definition auth_type_message :: string where
  "auth_type_message =
     ''auth_type must be 'jwt' or 'install_token' or 'user_token'' @ [CHR 0x27]"

text \<open>
  The test of the \<^verbatim>\<open>if\<close> of lines 106 to 111, with the world after it: the clock is
  read only when a token and its creation time are both there.
\<close>

definition installation_token_expired :: "app \<Rightarrow> world \<Rightarrow> bool \<times> world" where
  "installation_token_expired a w =
    (if u_installation_token a = JNull then (True, w)
     else case u_installation_token_created_at a of
            None \<Rightarrow> (True, w)
          | Some c \<Rightarrow> (let (t, w1) = now w in (t - c > 60 * 60, w1)))"

text \<open>
  The two methods call each other: \<^verbatim>\<open>base_github_rest_api\<close> reads the property
  \<^verbatim>\<open>installation_token\<close> when \<^verbatim>\<open>auth_type\<close> is \<^verbatim>\<open>"install_token"\<close>, and the property
  calls \<^verbatim>\<open>base_github_rest_api\<close> with the default \<^verbatim>\<open>auth_type\<close>, \<^verbatim>\<open>"jwt"\<close>.
  In \<^verbatim>\<open>installation_token\<close> the creation time is assigned (line 117) before
  \<^verbatim>\<open>res.get\<close> is evaluated (line 118).
\<close>

function base_github_rest_api ::
    "app \<Rightarrow> world \<Rightarrow> string \<Rightarrow> string \<Rightarrow> string \<Rightarrow> json outcome"
  and installation_token :: "app \<Rightarrow> world \<Rightarrow> json outcome" where
  "base_github_rest_api a w url method auth_type =
    (case (if auth_type = ''jwt'' then
             (case jwt a w of
                (Inl e, a1, w1) \<Rightarrow> (Inl e, a1, w1)
              | (Inr tok, a1, w1) \<Rightarrow> (Inr (JStr tok), a1, w1))
           else if auth_type = ''install_token'' then installation_token a w
           else (Inl (ValueError auth_type_message), a, w)) of
       (Inl e, a1, w1) \<Rightarrow> (Inl e, a1, w1)
     | (Inr auth, a1, w1) \<Rightarrow>
         (let req = \<lparr>req_method = method, req_url = url,
                     req_headers = [(''Accept'', ''application/vnd.github+json''),
                                (''Authorization'', ''Bearer '' @ py_str w1 auth),
                                (''X-GitHub-Api-Version'', ''2022-11-28'')]\<rparr>;
              w2 = w1\<lparr>sent := sent w1 @ [req]\<rparr>
          in case net w2 (length (sent w1)) req of
               None \<Rightarrow> (Inl TransportError, a1, w2)
             | Some response \<Rightarrow>
                 (case json_body response of
                    None \<Rightarrow> (Inl JSONDecodeError, a1, w2)
                  | Some j \<Rightarrow> (Inr j, a1, w2))))"
| "installation_token a w =
    (case installation_token_expired a w of
       (True, w1) \<Rightarrow>
         (case base_github_rest_api a w1
                 (''https://api.github.com/app/installations/'' @ installation_id a
                    @ ''/access_tokens'')
                 ''POST'' ''jwt'' of
            (Inl e, a1, w2) \<Rightarrow> (Inl e, a1, w2)
          | (Inr res, a1, w2) \<Rightarrow>
              (let (t, w3) = now w2;
                   a2 = a1\<lparr>u_installation_token_created_at := Some t\<rparr>
               in case res of
                    JObj d \<Rightarrow>
                      (let a3 = a2\<lparr>u_installation_token := dict_get d ''token'' JNull\<rparr>
                       in (Inr (u_installation_token a3), a3, w3))
                  | _ \<Rightarrow> (Inl AttributeError, a2, w3)))
     | (False, w1) \<Rightarrow> (Inr (u_installation_token a), a, w1))"
  by pat_completeness auto
termination
  by (relation "measure (\<lambda>x. case x of
        Inl (a, w, u, m, t) \<Rightarrow> (if t = ''install_token'' then 2 else 0)
      | Inr (a, w) \<Rightarrow> Suc 0)") auto

declare base_github_rest_api.simps [simp del] installation_token.simps [simp del]

text \<open>\<^verbatim>\<open>get_installation_info\<close>, lines 122 to 131.\<close>

definition get_installation_info :: "app \<Rightarrow> world \<Rightarrow> json outcome" where
  "get_installation_info a w =
     base_github_rest_api a w
       (''https://api.github.com/app/installations/'' @ installation_id a) ''GET'' ''jwt''"

subsection \<open>Sequences of calls\<close>

text \<open>
  A sequence of reads of a property on one object: the \<open>i\<close>-th read happens in the
  \<open>i\<close>-th world of the list, on the object as the read before left it. The worlds
  are unrelated, so the clock, the files and the network may change in any way between
  two reads.
\<close>

fun jwt_calls :: "app \<Rightarrow> world list \<Rightarrow> string outcome list" where
  "jwt_calls a [] = []"
| "jwt_calls a (w # ws) = jwt a w # jwt_calls (fst (snd (jwt a w))) ws"

fun installation_token_calls :: "app \<Rightarrow> world list \<Rightarrow> json outcome list" where
  "installation_token_calls a [] = []"
| "installation_token_calls a (w # ws) =
     installation_token a w # installation_token_calls (fst (snd (installation_token a w))) ws"

subsection \<open>Vocabulary of the statements\<close>

text \<open>The three headers of a request that carries the bearer token \<open>tok\<close>.\<close>

definition github_headers :: "string \<Rightarrow> (string \<times> string) list" where
  "github_headers tok =
     [(''Accept'', ''application/vnd.github+json''),
      (''Authorization'', ''Bearer '' @ tok),
      (''X-GitHub-Api-Version'', ''2022-11-28'')]"

text \<open>The token-exchange request of the installation of \<open>a\<close>, authenticated by \<open>tok\<close>.\<close>

definition exchange_request :: "app \<Rightarrow> string \<Rightarrow> http_request" where
  "exchange_request a tok =
     \<lparr>req_method = ''POST'',
      req_url = ''https://api.github.com/app/installations/'' @ installation_id a
              @ ''/access_tokens'',
      req_headers = github_headers tok\<rparr>"

subsection \<open>Concrete objects and worlds\<close>

text \<open>
  \<^verbatim>\<open>__init__\<close>, lines 10 to 22: the identifiers come from the environment and from the
  argument, and every cache field starts as \<^verbatim>\<open>None\<close>.
\<close>

definition init :: "world \<Rightarrow> string \<Rightarrow> app" where
  "init w inst =
     \<lparr>app_id = environ w ''GITHUB_APP_ID'',
      client_id = environ w ''GITHUB_CLIENT_ID'',
      installation_id = inst,
      u_jwt_created_at = None,
      u_jwt = None,
      u_installation_token_created_at = None,
      u_installation_token = JNull,
      u_user_token_created_at = None,
      u_user_token = None\<rparr>"

text \<open>
  A world whose clock stands at \<open>t\<close>: the key file \<^verbatim>\<open>pem.pem\<close> is there and parses, the
  signer answers every claim set, and GitHub answers the token exchange with a token and
  every other request with a small object.
\<close>

definition world_at :: "real \<Rightarrow> world" where
  "world_at t =
     \<lparr>clock = (\<lambda>n. t),
      reads = 0,
      environ = (\<lambda>k. if k = ''GITHUB_APP_ID'' then Some ''4711'' else None),
      files = (\<lambda>p. if p = ''pem.pem'' then Some ''PEM'' else None),
      jwk_from_pem = (\<lambda>s. Some (RSAJWK s)),
      encode = (\<lambda>p k alg. Some ''eyJ''),
      py_repr = (\<lambda>v. ''?''),
      net = (\<lambda>n r. if req_method r = ''POST''
               then Some \<lparr>status_code = 201,
                          json_body = Some (JObj [(''token'', JStr ''ghs_new'')])\<rparr>
               else Some \<lparr>status_code = 200,
                          json_body = Some (JObj [(''id'', JNum 1)])\<rparr>),
      opened = [],
      signed = [],
      sent = []\<rparr>"

text \<open>The object of installation 12345, as constructed.\<close>

definition app0 :: app where
  "app0 = init (world_at 0) ''12345''"

text \<open>The same object holding a JWT minted at time 1000.\<close>

definition app_jwt :: app where
  "app_jwt = app0\<lparr>u_jwt_created_at := Some 1000, u_jwt := Some ''eyJold''\<rparr>"

text \<open>The same object holding an installation token obtained at time 1000.\<close>

definition app_inst :: app where
  "app_inst = app0\<lparr>u_installation_token_created_at := Some 1000,
                   u_installation_token := JStr ''ghs_old''\<rparr>"

text \<open>At time 5000 with the key file gone.\<close>

definition world_nokey :: world where
  "world_nokey = (world_at 5000)\<lparr>files := (\<lambda>p. None)\<rparr>"

text \<open>At time 5000 with no network.\<close>

definition world_offline :: world where
  "world_offline = (world_at 5000)\<lparr>net := (\<lambda>n r. None)\<rparr>"

text \<open>At time 5000 with GitHub answering every request 500 and a JSON error object.\<close>

definition world_500 :: world where
  "world_500 = (world_at 5000)
     \<lparr>net := (\<lambda>n r. Some \<lparr>status_code = 500,
                            json_body = Some (JObj [(''message'', JStr ''Server Error'')])\<rparr>)\<rparr>"

text \<open>At time \<open>t\<close> with GitHub answering every request 201 and an empty object.\<close>

definition world_notoken :: "real \<Rightarrow> world" where
  "world_notoken t = (world_at t)
     \<lparr>net := (\<lambda>n r. Some \<lparr>status_code = 201, json_body = Some (JObj [])\<rparr>)\<rparr>"

text \<open>
  A clock that passes a whole second between its second and its third reading:
  1000.5, 1000.5, 1001, 1001, ...
\<close>

definition world_tick :: world where
  "world_tick = (world_at 0)\<lparr>clock := (\<lambda>n. if n < 2 then 2001 / 2 else 1001)\<rparr>"

text \<open>
  At time 1601 with a signer that knows two claim sets, the one of time 1000 and the one
  of time 1601, and gives them different tokens.
\<close>

definition world_two_tokens :: world where
  "world_two_tokens = (world_at 1601)
     \<lparr>encode := (\<lambda>p k alg.
        if p = \<lparr>iat = 1000, exp' = 1600, iss = Some ''4711''\<rparr> then Some ''eyJold''
        else if p = \<lparr>iat = 1601, exp' = 2201, iss = Some ''4711''\<rparr> then Some ''eyJnew''
        else None)\<rparr>"

section \<open>What the methods leave alone, and the paths through them\<close>

text \<open>
  Reading \<^verbatim>\<open>jwt\<close> changes the clock's count, the two logs of the key and nothing
  else of the world; of the object it changes the two JWT fields only.
\<close>

lemma jwt_mint_world:
  assumes "jwt_mint a w = (r, a', w')"
  shows "clock w' = clock w \<and> environ w' = environ w \<and> files w' = files w \<and>
         jwk_from_pem w' = jwk_from_pem w \<and> encode w' = encode w \<and> py_repr w' = py_repr w \<and>
         net w' = net w \<and> sent w' = sent w"
  using assms
  by (auto simp: jwt_mint_def now_def key_path_def Let_def split: option.splits)

lemma jwt_mint_app:
  assumes "jwt_mint a w = (r, a', w')"
  shows "app_id a' = app_id a \<and> client_id a' = client_id a \<and>
         installation_id a' = installation_id a \<and>
         u_installation_token a' = u_installation_token a \<and>
         u_installation_token_created_at a' = u_installation_token_created_at a"
  using assms
  by (auto simp: jwt_mint_def now_def key_path_def Let_def split: option.splits)

lemma jwt_world:
  assumes "jwt a w = (r, a', w')"
  shows "clock w' = clock w \<and> environ w' = environ w \<and> files w' = files w \<and>
         jwk_from_pem w' = jwk_from_pem w \<and> encode w' = encode w \<and> py_repr w' = py_repr w \<and>
         net w' = net w \<and> sent w' = sent w"
  using assms jwt_mint_world [of a w r a' w']
    jwt_mint_world [of a "w\<lparr>reads := Suc (reads w)\<rparr>" r a' w']
  by (auto simp: jwt_def now_def Let_def split: option.splits if_splits)

lemma jwt_app:
  assumes "jwt a w = (r, a', w')"
  shows "app_id a' = app_id a \<and> client_id a' = client_id a \<and>
         installation_id a' = installation_id a \<and>
         u_installation_token a' = u_installation_token a \<and>
         u_installation_token_created_at a' = u_installation_token_created_at a"
  using assms jwt_mint_app [of a w r a' w']
    jwt_mint_app [of a "w\<lparr>reads := Suc (reads w)\<rparr>" r a' w']
  by (auto simp: jwt_def now_def Let_def split: option.splits if_splits)

lemma expired_world:
  assumes "installation_token_expired a w = (b, w1)"
  shows "w1 = w \<or> w1 = w\<lparr>reads := Suc (reads w)\<rparr>"
  using assms
  by (auto simp: installation_token_expired_def now_def Let_def split: option.splits if_splits)

lemma base_jwt_raises:
  assumes "jwt a w = (Inl e, a1, w1)"
  shows "base_github_rest_api a w u m ''jwt'' = (Inl e, a1, w1)"
  using assms by (simp add: base_github_rest_api.simps)

lemma base_jwt_returns:
  assumes "jwt a w = (Inr tok, a1, w1)"
  shows "base_github_rest_api a w u m ''jwt'' =
    (let req = \<lparr>req_method = m, req_url = u, req_headers = github_headers tok\<rparr>;
         w2 = w1\<lparr>sent := sent w @ [req]\<rparr>
     in case net w (length (sent w)) req of
          None \<Rightarrow> (Inl TransportError, a1, w2)
        | Some response \<Rightarrow>
            (case json_body response of
               None \<Rightarrow> (Inl JSONDecodeError, a1, w2)
             | Some j \<Rightarrow> (Inr j, a1, w2)))"
proof -
  have "net w1 = net w" and "sent w1 = sent w"
    using jwt_world [OF assms] by simp_all
  then show ?thesis
    using assms
    by (simp add: base_github_rest_api.simps py_str_def github_headers_def Let_def
        split: option.splits)
qed

lemma installation_token_hit:
  assumes "installation_token_expired a w = (False, w1)"
  shows "installation_token a w = (Inr (u_installation_token a), a, w1)"
  using assms by (simp add: installation_token.simps)

lemma installation_token_jwt_raises:
  assumes "installation_token_expired a w = (True, w1)"
    and "jwt a w1 = (Inl e, a1, w2)"
  shows "installation_token a w = (Inl e, a1, w2)"
  using assms by (simp add: installation_token.simps base_jwt_raises)

lemma installation_token_mint:
  assumes "installation_token_expired a w = (True, w1)"
    and "jwt a w1 = (Inr tok, a1, w2)"
  shows "installation_token a w =
    (let w3 = w2\<lparr>sent := sent w @ [exchange_request a tok]\<rparr>
     in case net w (length (sent w)) (exchange_request a tok) of
          None \<Rightarrow> (Inl TransportError, a1, w3)
        | Some response \<Rightarrow>
            (case json_body response of
               None \<Rightarrow> (Inl JSONDecodeError, a1, w3)
             | Some res \<Rightarrow>
                 (let a2 = a1\<lparr>u_installation_token_created_at := Some (clock w (reads w2))\<rparr>;
                      w4 = w3\<lparr>reads := Suc (reads w2)\<rparr>
                  in case res of
                       JObj d \<Rightarrow>
                         (Inr (dict_get d ''token'' JNull),
                          a2\<lparr>u_installation_token := dict_get d ''token'' JNull\<rparr>, w4)
                     | _ \<Rightarrow> (Inl AttributeError, a2, w4))))"
proof -
  have w1: "net w1 = net w" "sent w1 = sent w" "clock w1 = clock w"
    using expired_world [OF assms(1)] by auto
  have w2: "clock w2 = clock w"
    using jwt_world [OF assms(2)] w1 by simp
  show ?thesis
    using assms w1 w2
    by (simp add: installation_token.simps base_jwt_returns exchange_request_def now_def
        Let_def split: option.splits json.splits)
qed

text \<open>The two ways through \<^verbatim>\<open>jwt\<close>: the cached token, or a mint that succeeds.\<close>

lemma jwt_hit:
  assumes "u_jwt a = Some tok" and "u_jwt_created_at a = Some c"
    and "clock w (reads w) - c \<le> 600"
  shows "jwt a w = (Inr tok, a, w\<lparr>reads := Suc (reads w)\<rparr>)"
  using assms by (simp add: jwt_def now_def)

lemma jwt_mint_returns:
  assumes "files w (key_path w) = Some pem"
    and "jwk_from_pem w pem = Some k"
    and "encode w \<lparr>iat = py_int (clock w (reads w + 1)),
                    exp' = py_int (clock w (reads w + 2)) + 600,
                    iss = app_id a\<rparr> k ''RS256'' = Some tok"
  shows "jwt_mint a w =
    (Inr tok,
     a\<lparr>u_jwt_created_at := Some (clock w (reads w)), u_jwt := Some tok\<rparr>,
     w\<lparr>reads := reads w + 3,
       opened := opened w @ [key_path w],
       signed := signed w @ [(\<lparr>iat = py_int (clock w (reads w + 1)),
                                exp' = py_int (clock w (reads w + 2)) + 600,
                                iss = app_id a\<rparr>, k, ''RS256'')]\<rparr>)"
  using assms by (simp add: jwt_mint_def now_def key_path_def Let_def)

text \<open>What a mint gives to the signer, read off the world it leaves.\<close>

lemma jwt_mint_signed:
  assumes "jwt_mint a w = (r, a', w')" and "signed w' \<noteq> signed w"
  shows "\<exists>k. signed w' =
            signed w @ [(\<lparr>iat = py_int (clock w (reads w' - 2)),
                           exp' = py_int (clock w (reads w' - 1)) + 600,
                           iss = app_id a\<rparr>, k, ''RS256'')] \<and>
          (\<forall>tok. r = Inr tok \<longrightarrow>
             encode w \<lparr>iat = py_int (clock w (reads w' - 2)),
                        exp' = py_int (clock w (reads w' - 1)) + 600,
                        iss = app_id a\<rparr> k ''RS256'' = Some tok \<and> u_jwt a' = Some tok)"
  using assms
  by (auto simp: jwt_mint_def now_def Let_def split: option.splits)

text \<open>An outcome is its three parts.\<close>

lemma outcome_parts: "x = (fst x, fst (snd x), snd (snd x))"
  by simp

text \<open>\<^verbatim>\<open>d.get(k, default)\<close> when no member is named \<open>k\<close>.\<close>

lemma dict_get_absent:
  assumes "k \<notin> fst ` set d"
  shows "dict_get d k dflt = dflt"
proof -
  have "map_of (rev d) k = None"
    using assms by (simp add: map_of_eq_None_iff)
  then show ?thesis by (simp add: dict_get_def)
qed

text \<open>The paths through \<^verbatim>\<open>installation_token\<close>, and sequences of cache hits.\<close>

lemma expired_without_token:
  assumes "u_installation_token a = JNull"
  shows "installation_token_expired a w = (True, w)"
  using assms by (simp add: installation_token_expired_def)

lemma installation_token_sends:
  assumes "installation_token_expired a w = (True, w1)"
    and "jwt a w1 = (Inr tok, a1, w2)"
  shows "sent (snd (snd (installation_token a w))) = sent w @ [exchange_request a tok]"
  unfolding installation_token_mint [OF assms]
  by (auto simp: Let_def split: option.splits json.splits)

lemma installation_token_hit_young:
  assumes "u_installation_token a \<noteq> JNull"
    and "u_installation_token_created_at a = Some c"
    and "clock w (reads w) - c \<le> 3600"
  shows "installation_token a w = (Inr (u_installation_token a), a, w\<lparr>reads := Suc (reads w)\<rparr>)"
  using assms
  by (intro installation_token_hit) (simp add: installation_token_expired_def now_def)

lemma installation_token_calls_append:
  "installation_token_calls a (ws @ [w]) =
     installation_token_calls a ws @
     [installation_token (foldl (\<lambda>b v. fst (snd (installation_token b v))) a ws) w]"
  by (induction ws arbitrary: a) simp_all

lemma installation_token_hits:
  assumes "u_installation_token a \<noteq> JNull"
    and "u_installation_token_created_at a = Some c"
    and "\<forall>v \<in> set ws. clock v (reads v) - c < 3600"
  shows "installation_token_calls a ws =
           map (\<lambda>v. (Inr (u_installation_token a), a, v\<lparr>reads := Suc (reads v)\<rparr>)) ws \<and>
         foldl (\<lambda>b v. fst (snd (installation_token b v))) a ws = a"
  using assms(3)
proof (induction ws)
  case Nil
  show ?case by simp
next
  case (Cons v ws)
  have "clock v (reads v) - c \<le> 3600"
    using Cons.prems by simp
  then have "installation_token a v =
      (Inr (u_installation_token a), a, v\<lparr>reads := Suc (reads v)\<rparr>)"
    using assms(1,2) by (intro installation_token_hit_young) simp_all
  then show ?case
    using Cons by simp
qed

text \<open>
  What \<^verbatim>\<open>installation_token\<close> sends, and \<^verbatim>\<open>base_github_rest_api\<close> with the installation
  token as credential.
\<close>

lemma installation_token_world:
  assumes "installation_token a w = (r, a', w')"
  shows "py_repr w' = py_repr w \<and> net w' = net w \<and>
         (sent w' = sent w \<or> (\<exists>tok. sent w' = sent w @ [exchange_request a tok]))"
proof -
  obtain b w1 where t: "installation_token_expired a w = (b, w1)"
    by (cases "installation_token_expired a w")
  have w1: "py_repr w1 = py_repr w" "net w1 = net w" "sent w1 = sent w"
    using expired_world [OF t] by auto
  obtain rj a1 w2 where j: "jwt a w1 = (rj, a1, w2)"
    by (cases "jwt a w1") auto
  have w2: "py_repr w2 = py_repr w" "net w2 = net w" "sent w2 = sent w"
    using jwt_world [OF j] w1 by simp_all
  show ?thesis
  proof (cases b)
    case False
    then show ?thesis
      using installation_token_hit [of a w w1] t assms w1 by simp
  next
    case True
    show ?thesis
    proof (cases rj)
      case (Inl e)
      then show ?thesis
        using installation_token_jwt_raises [of a w w1 e a1 w2] t j True assms w2 by simp
    next
      case (Inr tok)
      then have "installation_token_expired a w = (True, w1)" and "jwt a w1 = (Inr tok, a1, w2)"
        using t j True by simp_all
      from installation_token_mint [OF this] assms w2 show ?thesis
        by (auto simp: Let_def split: option.splits json.splits)
    qed
  qed
qed

lemma base_install_token:
  "base_github_rest_api a w u m ''install_token'' =
    (case installation_token a w of
       (Inl e, a1, w1) \<Rightarrow> (Inl e, a1, w1)
     | (Inr auth, a1, w1) \<Rightarrow>
         (let req = \<lparr>req_method = m, req_url = u,
                     req_headers = github_headers (py_str w1 auth)\<rparr>;
              w2 = w1\<lparr>sent := sent w1 @ [req]\<rparr>
          in case net w2 (length (sent w1)) req of
               None \<Rightarrow> (Inl TransportError, a1, w2)
             | Some response \<Rightarrow>
                 (case json_body response of
                    None \<Rightarrow> (Inl JSONDecodeError, a1, w2)
                  | Some j \<Rightarrow> (Inr j, a1, w2))))"
  unfolding github_headers_def by (simp add: base_github_rest_api.simps)

lemma exchange_request_headers: "req_headers (exchange_request a tok) = github_headers tok"
  by (simp add: exchange_request_def)

section \<open>The claims\<close>

text \<open>
  The specification names the errors by what went wrong; the code raises Python's own.
  \<open>InvalidAuthKind\<close> is the \<^verbatim>\<open>ValueError\<close> of line 48, \<open>KeyLoadError\<close> the \<open>OSError\<close> of
  \<^verbatim>\<open>open\<close>, \<open>KeyFormatError\<close> what \<^verbatim>\<open>jwk_from_pem\<close> raises, and \<open>AuthExchangeError\<close>
  whatever the exchange request raises: \<open>TransportError\<close> from \<^verbatim>\<open>client.request\<close> or
  \<open>JSONDecodeError\<close> from \<^verbatim>\<open>response.json()\<close>.
\<close>

subsection \<open>C8: an unrecognised \<^verbatim>\<open>auth_type\<close>\<close>

text \<open>
  C8. For every url and method, \<^verbatim>\<open>base_github_rest_api\<close> with an \<^verbatim>\<open>auth_type\<close> other than
  \<^verbatim>\<open>"jwt"\<close> and \<^verbatim>\<open>"install_token"\<close> raises the \<^verbatim>\<open>ValueError\<close> of line 48 and leaves the
  object and the world as they were: no credential is read or minted, no clock reading,
  no file opened, no request sent.
\<close>

theorem unknown_auth_type_rejected:
  assumes "auth_type \<noteq> ''jwt''" and "auth_type \<noteq> ''install_token''"
  shows "base_github_rest_api a w url method auth_type
           = (Inl (ValueError auth_type_message), a, w)"
  using assms by (simp add: base_github_rest_api.simps)

theorem unknown_auth_type_rejected_witness:
  "''bogus'' \<noteq> ''jwt'' \<and> ''bogus'' \<noteq> ''install_token'' \<and>
   base_github_rest_api app_inst world_offline ''https://api.github.com/user'' ''GET'' ''bogus''
     = (Inl (ValueError auth_type_message), app_inst, world_offline) \<and>
   base_github_rest_api app0 (world_at 5000) ''https://api.github.com/user'' ''GET'' ''user_token''
     = (Inl (ValueError auth_type_message), app0, world_at 5000)"
  using unknown_auth_type_rejected [of "''bogus''" app_inst world_offline]
    unknown_auth_type_rejected [of "''user_token''" app0 "world_at 5000"]
  by simp

subsection \<open>C5: reads of \<^verbatim>\<open>jwt\<close> while the cached token is young\<close>

text \<open>
  C5. Take an object that holds a JWT and its creation time, and any sequence of reads
  of \<^verbatim>\<open>jwt\<close>, each made when the clock shows less than 600 seconds past that creation
  time. Every read returns the cached token, leaves the object as it was, and changes
  nothing of the world but the count of clock readings: no key file is opened and
  nothing is signed.
\<close>

theorem jwt_cache_hit_sequence:
  assumes "u_jwt a = Some tok" and "u_jwt_created_at a = Some c"
    and "\<forall>w \<in> set ws. clock w (reads w) - c < 600"
  shows "jwt_calls a ws = map (\<lambda>w. (Inr tok, a, w\<lparr>reads := Suc (reads w)\<rparr>)) ws"
  using assms(3)
proof (induction ws)
  case Nil
  show ?case by simp
next
  case (Cons w ws)
  have "clock w (reads w) - c \<le> 600"
    using Cons.prems by simp
  then have "jwt a w = (Inr tok, a, w\<lparr>reads := Suc (reads w)\<rparr>)"
    using assms(1,2) by (rule jwt_hit [rotated 2])
  then show ?case
    using Cons by simp
qed

theorem jwt_cache_hit_sequence_witness:
  "jwt_calls app_jwt [world_at 1100, world_nokey\<lparr>clock := (\<lambda>n. 1599)\<rparr>] =
     [(Inr ''eyJold'', app_jwt, (world_at 1100)\<lparr>reads := 1\<rparr>),
      (Inr ''eyJold'', app_jwt, world_nokey\<lparr>clock := (\<lambda>n. 1599), reads := 1\<rparr>)]"
proof -
  have tok: "u_jwt app_jwt = Some ''eyJold''"
    and c: "u_jwt_created_at app_jwt = Some 1000"
    by (simp_all add: app_jwt_def)
  have young: "\<forall>w \<in> set [world_at 1100, world_nokey\<lparr>clock := (\<lambda>n. 1599)\<rparr>].
                 clock w (reads w) - 1000 < 600"
    by (simp add: world_at_def world_nokey_def)
  have r: "reads (world_at 1100) = 0" "reads (world_nokey\<lparr>clock := (\<lambda>n. 1599)\<rparr>) = 0"
    by (simp_all add: world_at_def world_nokey_def)
  show ?thesis
    unfolding jwt_cache_hit_sequence [OF tok c young]
    by (simp add: r)
qed

subsection \<open>C3: a mint of the JWT that fails\<close>

text \<open>
  C3. The claim is that a failed mint leaves both the cached token and its creation
  time as they were. Line 77 assigns the creation time before line 79 opens the key
  file. Here the object holds a token minted at time 1000, the clock shows 5000 and
  the key file is gone: the read raises \<open>OSError\<close>, the token is still the old one, and
  the creation time is now 5000. A second read one second later, the key file back,
  finds the token 1 second old and returns it, 4001 seconds after it was minted.
\<close>

theorem failed_mint_keeps_new_created_at:
  "jwt app_jwt world_nokey =
     (Inl OSError, app_jwt\<lparr>u_jwt_created_at := Some 5000\<rparr>,
      world_nokey\<lparr>reads := 2, opened := [''pem.pem'']\<rparr>) \<and>
   jwt (app_jwt\<lparr>u_jwt_created_at := Some 5000\<rparr>) (world_at 5001) =
     (Inr ''eyJold'', app_jwt\<lparr>u_jwt_created_at := Some 5000\<rparr>, (world_at 5001)\<lparr>reads := 1\<rparr>)"
  by (simp add: jwt_def jwt_mint_def now_def key_path_def Let_def app_jwt_def app0_def
      init_def world_nokey_def world_at_def)

subsection \<open>C9: the claim set of a minted JWT\<close>

text \<open>
  C9, as amended. The claim is that every minted JWT has \<open>exp = iat + 600\<close>. Lines 86
  and 88 read the clock twice, once for \<^verbatim>\<open>iat\<close> and once for \<^verbatim>\<open>exp\<close>. What holds:
  whenever a read of \<^verbatim>\<open>jwt\<close> signs, it signs exactly one claim set, with algorithm
  RS256, in which \<^verbatim>\<open>iat\<close> is the whole seconds of the last clock reading but one of the
  read, \<^verbatim>\<open>exp\<close> is the whole seconds of the last reading plus 600, and \<^verbatim>\<open>iss\<close> is the
  application identifier; the token returned and cached is the signer's answer to that
  claim set. So \<open>exp = iat + 600\<close> when both readings fall in the same whole second.
\<close>

theorem minted_claim_set:
  assumes "jwt a w = (r, a', w')" and "signed w' \<noteq> signed w"
  shows "\<exists>k. signed w' =
            signed w @ [(\<lparr>iat = py_int (clock w (reads w' - 2)),
                           exp' = py_int (clock w (reads w' - 1)) + 600,
                           iss = app_id a\<rparr>, k, ''RS256'')] \<and>
          (\<forall>tok. r = Inr tok \<longrightarrow>
             encode w \<lparr>iat = py_int (clock w (reads w' - 2)),
                        exp' = py_int (clock w (reads w' - 1)) + 600,
                        iss = app_id a\<rparr> k ''RS256'' = Some tok \<and> u_jwt a' = Some tok)"
proof -
  consider (mint) "jwt a w = jwt_mint a w"
    | (later) "jwt a w = jwt_mint a (w\<lparr>reads := Suc (reads w)\<rparr>)"
    | (hit) "w' = w\<lparr>reads := Suc (reads w)\<rparr>"
    using assms(1) by (auto simp: jwt_def now_def Let_def split: option.splits if_splits)
  then show ?thesis
  proof cases
    case mint
    then show ?thesis
      using jwt_mint_signed [of a w r a' w'] assms by simp
  next
    case later
    then show ?thesis
      using jwt_mint_signed [of a "w\<lparr>reads := Suc (reads w)\<rparr>" r a' w'] assms by simp
  next
    case hit
    then show ?thesis
      using assms(2) by simp
  qed
qed

theorem minted_claim_set_witness:
  "signed (snd (snd (jwt app0 (world_at 5000)))) =
     [(\<lparr>iat = 5000, exp' = 5600, iss = Some ''4711''\<rparr>, RSAJWK ''PEM'', ''RS256'')] \<and>
   fst (jwt app0 (world_at 5000)) = Inr ''eyJ''"
proof -
  have run: "jwt app0 (world_at 5000) =
      (Inr ''eyJ'', app0\<lparr>u_jwt_created_at := Some 5000, u_jwt := Some ''eyJ''\<rparr>,
       (world_at 5000)\<lparr>reads := 3, opened := [''pem.pem''],
          signed := [(\<lparr>iat = 5000, exp' = 5600, iss = Some ''4711''\<rparr>,
                      RSAJWK ''PEM'', ''RS256'')]\<rparr>)"
    by (simp add: jwt_def jwt_mint_def now_def key_path_def Let_def app0_def init_def
        world_at_def py_int_def)
  have new: "signed ((world_at 5000)\<lparr>reads := 3, opened := [''pem.pem''],
          signed := [(\<lparr>iat = 5000, exp' = 5600, iss = Some ''4711''\<rparr>,
                      RSAJWK ''PEM'', ''RS256'')]\<rparr>) \<noteq> signed (world_at 5000)"
    by (simp add: world_at_def)
  show ?thesis
    using minted_claim_set [OF run new] by (simp add: run)
qed

text \<open>
  C9 as stated fails when a second begins between the two readings: with the clock at
  1000.5 for \<^verbatim>\<open>iat\<close> and at 1001 for \<^verbatim>\<open>exp\<close>, the claim set signed has \<^verbatim>\<open>iat\<close> 1000 and
  \<^verbatim>\<open>exp\<close> 1601.
\<close>

theorem exp_is_not_iat_plus_600_counterexample:
  "jwt app0 world_tick =
     (Inr ''eyJ'',
      app0\<lparr>u_jwt_created_at := Some (2001 / 2), u_jwt := Some ''eyJ''\<rparr>,
      world_tick\<lparr>reads := 3, opened := [''pem.pem''],
        signed := [(\<lparr>iat = 1000, exp' = 1601, iss = Some ''4711''\<rparr>, RSAJWK ''PEM'', ''RS256'')]\<rparr>)"
  by (simp add: jwt_def jwt_mint_def now_def key_path_def Let_def app0_def init_def
      world_tick_def world_at_def py_int_def)

subsection \<open>C2: a read of \<^verbatim>\<open>jwt\<close> when the cached token is old\<close>

text \<open>
  C2, as amended. The test of line 75 is \<^verbatim>\<open>> 60 * 10\<close>. For an object that holds a JWT,
  a read of \<^verbatim>\<open>jwt\<close> made when the clock shows more than 600 seconds past the recorded
  creation time mints: provided the key file opens and parses and the signer answers,
  the read returns the signer's token for the claim set of the current time, caches
  it, and records the next clock reading as the creation time. The new token differs
  from the old one if the signer never gives two claim sets the same token and the old
  token is its answer to another claim set.
\<close>

theorem jwt_remint_after_600:
  assumes "u_jwt a = Some old" and "u_jwt_created_at a = Some c"
    and "clock w (reads w) - c > 600"
    and "files w (key_path w) = Some pem"
    and "jwk_from_pem w pem = Some k"
    and "encode w \<lparr>iat = py_int (clock w (reads w + 2)),
                    exp' = py_int (clock w (reads w + 3)) + 600,
                    iss = app_id a\<rparr> k ''RS256'' = Some tok"
  shows "jwt a w =
      (Inr tok,
       a\<lparr>u_jwt_created_at := Some (clock w (reads w + 1)), u_jwt := Some tok\<rparr>,
       w\<lparr>reads := reads w + 4,
         opened := opened w @ [key_path w],
         signed := signed w @ [(\<lparr>iat = py_int (clock w (reads w + 2)),
                                  exp' = py_int (clock w (reads w + 3)) + 600,
                                  iss = app_id a\<rparr>, k, ''RS256'')]\<rparr>) \<and>
    ((\<forall>q j q' j' t. encode w q j ''RS256'' = Some t \<and> encode w q' j' ''RS256'' = Some t
         \<longrightarrow> q = q') \<and>
     (\<exists>q j. encode w q j ''RS256'' = Some old \<and>
         q \<noteq> \<lparr>iat = py_int (clock w (reads w + 2)),
               exp' = py_int (clock w (reads w + 3)) + 600,
               iss = app_id a\<rparr>)
     \<longrightarrow> tok \<noteq> old)"
proof
  let ?w1 = "w\<lparr>reads := Suc (reads w)\<rparr>"
  have "jwt a w = jwt_mint a ?w1"
    using assms(1-3) by (simp add: jwt_def now_def)
  also have "\<dots> = (Inr tok,
       a\<lparr>u_jwt_created_at := Some (clock ?w1 (reads ?w1)), u_jwt := Some tok\<rparr>,
       ?w1\<lparr>reads := reads ?w1 + 3,
         opened := opened ?w1 @ [key_path ?w1],
         signed := signed ?w1 @ [(\<lparr>iat = py_int (clock ?w1 (reads ?w1 + 1)),
                                  exp' = py_int (clock ?w1 (reads ?w1 + 2)) + 600,
                                  iss = app_id a\<rparr>, k, ''RS256'')]\<rparr>)"
    using assms(4-6) by (intro jwt_mint_returns) (simp_all add: key_path_def eval_nat_numeral)
  finally show "jwt a w =
      (Inr tok,
       a\<lparr>u_jwt_created_at := Some (clock w (reads w + 1)), u_jwt := Some tok\<rparr>,
       w\<lparr>reads := reads w + 4,
         opened := opened w @ [key_path w],
         signed := signed w @ [(\<lparr>iat = py_int (clock w (reads w + 2)),
                                  exp' = py_int (clock w (reads w + 3)) + 600,
                                  iss = app_id a\<rparr>, k, ''RS256'')]\<rparr>)"
    by (simp add: key_path_def eval_nat_numeral)
next
  show "(\<forall>q j q' j' t. encode w q j ''RS256'' = Some t \<and> encode w q' j' ''RS256'' = Some t
         \<longrightarrow> q = q') \<and>
     (\<exists>q j. encode w q j ''RS256'' = Some old \<and>
         q \<noteq> \<lparr>iat = py_int (clock w (reads w + 2)),
               exp' = py_int (clock w (reads w + 3)) + 600,
               iss = app_id a\<rparr>)
     \<longrightarrow> tok \<noteq> old"
    using assms(6) by blast
qed

theorem jwt_remint_after_600_witness:
  "jwt app_jwt world_two_tokens =
     (Inr ''eyJnew'',
      app_jwt\<lparr>u_jwt_created_at := Some 1601, u_jwt := Some ''eyJnew''\<rparr>,
      world_two_tokens\<lparr>reads := 4, opened := [''pem.pem''],
        signed := [(\<lparr>iat = 1601, exp' = 2201, iss = Some ''4711''\<rparr>,
                    RSAJWK ''PEM'', ''RS256'')]\<rparr>) \<and>
   ''eyJnew'' \<noteq> ''eyJold''"
proof -
  have old: "u_jwt app_jwt = Some ''eyJold''"
    and c: "u_jwt_created_at app_jwt = Some 1000"
    by (simp_all add: app_jwt_def)
  have age: "clock world_two_tokens (reads world_two_tokens) - 1000 > 600"
    by (simp add: world_two_tokens_def world_at_def)
  have pem: "files world_two_tokens (key_path world_two_tokens) = Some ''PEM''"
    and k: "jwk_from_pem world_two_tokens ''PEM'' = Some (RSAJWK ''PEM'')"
    by (simp_all add: world_two_tokens_def world_at_def key_path_def)
  have tok: "encode world_two_tokens
        \<lparr>iat = py_int (clock world_two_tokens (reads world_two_tokens + 2)),
         exp' = py_int (clock world_two_tokens (reads world_two_tokens + 3)) + 600,
         iss = app_id app_jwt\<rparr> (RSAJWK ''PEM'') ''RS256'' = Some ''eyJnew''"
    by (simp add: world_two_tokens_def world_at_def py_int_def app_jwt_def app0_def init_def)
  have inj: "\<forall>q j q' j' t. encode world_two_tokens q j ''RS256'' = Some t \<and>
        encode world_two_tokens q' j' ''RS256'' = Some t \<longrightarrow> q = q'"
    by (auto simp: world_two_tokens_def world_at_def split: if_splits)
  have prov: "\<exists>q j. encode world_two_tokens q j ''RS256'' = Some ''eyJold'' \<and>
        q \<noteq> \<lparr>iat = py_int (clock world_two_tokens (reads world_two_tokens + 2)),
              exp' = py_int (clock world_two_tokens (reads world_two_tokens + 3)) + 600,
              iss = app_id app_jwt\<rparr>"
    by (rule exI [of _ "\<lparr>iat = 1000, exp' = 1600, iss = Some ''4711''\<rparr>"])
      (simp add: world_two_tokens_def world_at_def py_int_def)
  have clk: "clock world_two_tokens n = 1601" for n
    by (simp add: world_two_tokens_def world_at_def)
  have vals: "reads world_two_tokens = 0" "opened world_two_tokens = []"
    "signed world_two_tokens = []" "key_path world_two_tokens = ''pem.pem''"
    "py_int 1601 = 1601" "app_id app_jwt = Some ''4711''"
    by (simp_all add: world_two_tokens_def world_at_def key_path_def py_int_def app_jwt_def
        app0_def init_def)
  show ?thesis
    using jwt_remint_after_600 [OF old c age pem k tok] inj prov
    by (simp add: clk vals)
qed

text \<open>
  C2 as stated fails at an age of exactly 600 seconds: the cached token is returned and
  nothing is minted.
\<close>

theorem age_600_is_a_cache_hit_counterexample:
  "clock (world_at 1600) (reads (world_at 1600)) - 1000 = 600 \<and>
   u_jwt_created_at app_jwt = Some 1000 \<and>
   jwt app_jwt (world_at 1600) = (Inr ''eyJold'', app_jwt, (world_at 1600)\<lparr>reads := 1\<rparr>)"
  by (simp add: jwt_def now_def app_jwt_def world_at_def)

subsection \<open>C7: what a remint of the installation token sends\<close>

text \<open>
  C7. Whenever \<^verbatim>\<open>installation_token\<close> takes the mint path, it reads \<^verbatim>\<open>jwt\<close> in the world
  the test left; when that read returns a token, the call sends exactly one request, the
  POST to the installation's \<^verbatim>\<open>access_tokens\<close> URL with that token as the bearer, whatever
  the network then answers. The read of \<^verbatim>\<open>jwt\<close> shows in what it leaves: the JWT fields of
  the object and the logs of the key file and the signer are those the read of \<^verbatim>\<open>jwt\<close>
  produced.
\<close>

theorem remint_posts_exchange_once:
  assumes "installation_token_expired a w = (True, w1)"
    and "jwt a w1 = (Inr tok, a1, w2)"
    and "installation_token a w = (r, a', w')"
  shows "sent w' = sent w @ [exchange_request a tok] \<and>
         u_jwt a' = u_jwt a1 \<and> u_jwt_created_at a' = u_jwt_created_at a1 \<and>
         opened w' = opened w2 \<and> signed w' = signed w2"
  using assms(3) unfolding installation_token_mint [OF assms(1,2)]
  by (auto simp: Let_def split: option.splits json.splits)

theorem remint_posts_exchange_once_witness:
  "sent (snd (snd (installation_token app0 (world_at 5000)))) =
     [\<lparr>req_method = ''POST'',
       req_url = ''https://api.github.com/app/installations/12345/access_tokens'',
       req_headers = [(''Accept'', ''application/vnd.github+json''),
                      (''Authorization'', ''Bearer eyJ''),
                      (''X-GitHub-Api-Version'', ''2022-11-28'')]\<rparr>]"
proof -
  have stale: "installation_token_expired app0 (world_at 5000) = (True, world_at 5000)"
    by (simp add: installation_token_expired_def app0_def init_def)
  have j: "jwt app0 (world_at 5000) =
      (Inr ''eyJ'', fst (snd (jwt app0 (world_at 5000))), snd (snd (jwt app0 (world_at 5000))))"
    by (simp add: jwt_def jwt_mint_def now_def key_path_def Let_def app0_def init_def
        world_at_def)
  have "sent (snd (snd (installation_token app0 (world_at 5000)))) =
      sent (world_at 5000) @ [exchange_request app0 ''eyJ'']"
    using remint_posts_exchange_once [OF stale j outcome_parts] by (rule conjunct1)
  then show ?thesis
    by (simp add: exchange_request_def github_headers_def world_at_def app0_def init_def)
qed

subsection \<open>C1: a token exchange that fails\<close>

text \<open>
  C1, as amended. \<^verbatim>\<open>base_github_rest_api\<close> never looks at the status of a response. What
  holds: when the exchange request gets no response, or a response whose body is not
  JSON, \<^verbatim>\<open>installation_token\<close> raises the error of the request (\<open>TransportError\<close> or
  \<open>JSONDecodeError\<close>) and the cached installation token and its creation time are what
  they were, whatever they were.
\<close>

theorem exchange_failure_keeps_cache:
  assumes "installation_token_expired a w = (True, w1)"
    and "jwt a w1 = (Inr tok, a1, w2)"
    and "net w (length (sent w)) (exchange_request a tok) = None \<or>
         (\<exists>response. net w (length (sent w)) (exchange_request a tok) = Some response \<and>
                     json_body response = None)"
  shows "installation_token a w =
      (Inl (if net w (length (sent w)) (exchange_request a tok) = None
            then TransportError else JSONDecodeError),
       a1, w2\<lparr>sent := sent w @ [exchange_request a tok]\<rparr>) \<and>
    u_installation_token a1 = u_installation_token a \<and>
    u_installation_token_created_at a1 = u_installation_token_created_at a"
proof -
  have "u_installation_token a1 = u_installation_token a"
    and "u_installation_token_created_at a1 = u_installation_token_created_at a"
    using jwt_app [OF assms(2)] by simp_all
  moreover have "installation_token a w =
      (Inl (if net w (length (sent w)) (exchange_request a tok) = None
            then TransportError else JSONDecodeError),
       a1, w2\<lparr>sent := sent w @ [exchange_request a tok]\<rparr>)"
    unfolding installation_token_mint [OF assms(1,2)]
    using assms(3) by (auto simp: Let_def)
  ultimately show ?thesis by simp
qed

theorem exchange_failure_keeps_cache_witness:
  "installation_token app_inst world_offline =
     (Inl TransportError,
      app_inst\<lparr>u_jwt_created_at := Some 5000, u_jwt := Some ''eyJ''\<rparr>,
      world_offline\<lparr>reads := 4, opened := [''pem.pem''],
        signed := [(\<lparr>iat = 5000, exp' = 5600, iss = Some ''4711''\<rparr>, RSAJWK ''PEM'', ''RS256'')],
        sent := [exchange_request app_inst ''eyJ'']\<rparr>)"
proof -
  let ?w1 = "world_offline\<lparr>reads := 1\<rparr>"
  let ?a1 = "app_inst\<lparr>u_jwt_created_at := Some 5000, u_jwt := Some ''eyJ''\<rparr>"
  let ?w2 = "world_offline\<lparr>reads := 4, opened := [''pem.pem''],
        signed := [(\<lparr>iat = 5000, exp' = 5600, iss = Some ''4711''\<rparr>, RSAJWK ''PEM'', ''RS256'')]\<rparr>"
  have stale: "installation_token_expired app_inst world_offline = (True, ?w1)"
    by (simp add: installation_token_expired_def now_def app_inst_def world_offline_def
        world_at_def)
  have j: "jwt app_inst ?w1 = (Inr ''eyJ'', ?a1, ?w2)"
    by (simp add: jwt_def jwt_mint_def now_def key_path_def Let_def py_int_def app_inst_def
        app0_def init_def world_offline_def world_at_def)
  have down: "net world_offline (length (sent world_offline)) (exchange_request app_inst ''eyJ'')
      = None"
    by (simp add: world_offline_def)
  show ?thesis
    using exchange_failure_keeps_cache [OF stale j disjI1 [OF down]]
    by (simp add: down world_offline_def world_at_def)
qed

text \<open>
  C1 as stated fails for a response with status 500 and a JSON object as its body:
  nothing is raised, the cached token \<^verbatim>\<open>ghs_old\<close> is replaced by \<^verbatim>\<open>None\<close> and the creation
  time moves from 1000 to 5000.
\<close>

theorem http_500_overwrites_cache_counterexample:
  "map_option status_code (net world_500 0 (exchange_request app_inst ''eyJ'')) = Some 500 \<and>
   u_installation_token app_inst = JStr ''ghs_old'' \<and>
   u_installation_token_created_at app_inst = Some 1000 \<and>
   installation_token app_inst world_500 =
     (Inr JNull,
      app_inst\<lparr>u_jwt_created_at := Some 5000, u_jwt := Some ''eyJ'',
               u_installation_token_created_at := Some 5000,
               u_installation_token := JNull\<rparr>,
      world_500\<lparr>reads := 5, opened := [''pem.pem''],
        signed := [(\<lparr>iat = 5000, exp' = 5600, iss = Some ''4711''\<rparr>, RSAJWK ''PEM'', ''RS256'')],
        sent := [exchange_request app_inst ''eyJ'']\<rparr>)"
  by (simp add: installation_token.simps base_github_rest_api.simps
      installation_token_expired_def jwt_def jwt_mint_def now_def key_path_def Let_def
      py_str_def py_int_def dict_get_def exchange_request_def github_headers_def
      app_inst_def app0_def init_def world_500_def world_at_def)

subsection \<open>C4: an exchange response without a token\<close>

text \<open>
  C4, as amended. When the exchange answers with a JSON object that has no member
  \<^verbatim>\<open>token\<close>, \<^verbatim>\<open>installation_token\<close> returns \<^verbatim>\<open>None\<close>, stores \<^verbatim>\<open>None\<close> as the cached token and
  the current time as its creation time. The test of line 107 takes a cached \<^verbatim>\<open>None\<close> for
  no token at all: every later read, at any time and in any world, mints again, and
  sends the exchange request once more as soon as its read of \<^verbatim>\<open>jwt\<close> returns.
\<close>

theorem missing_token_is_fetched_again:
  assumes "installation_token_expired a w = (True, w1)"
    and "jwt a w1 = (Inr tok, a1, w2)"
    and "net w (length (sent w)) (exchange_request a tok) = Some response"
    and "json_body response = Some (JObj d)"
    and "''token'' \<notin> fst ` set d"
    and "a' = a1\<lparr>u_installation_token_created_at := Some (clock w (reads w2)),
                  u_installation_token := JNull\<rparr>"
  shows "installation_token a w =
      (Inr JNull, a',
       w2\<lparr>sent := sent w @ [exchange_request a tok], reads := Suc (reads w2)\<rparr>) \<and>
    (\<forall>v tok' a2 v2. jwt a' v = (Inr tok', a2, v2) \<longrightarrow>
       sent (snd (snd (installation_token a' v))) = sent v @ [exchange_request a tok'])"
proof
  show "installation_token a w =
      (Inr JNull, a',
       w2\<lparr>sent := sent w @ [exchange_request a tok], reads := Suc (reads w2)\<rparr>)"
    unfolding installation_token_mint [OF assms(1,2)]
    using assms(3-6) by (simp add: Let_def dict_get_absent)
next
  have none: "u_installation_token a' = JNull"
    using assms(6) by simp
  have same: "exchange_request a' t = exchange_request a t" for t
    using jwt_app [OF assms(2)] assms(6) by (simp add: exchange_request_def)
  show "\<forall>v tok' a2 v2. jwt a' v = (Inr tok', a2, v2) \<longrightarrow>
       sent (snd (snd (installation_token a' v))) = sent v @ [exchange_request a tok']"
    using installation_token_sends [OF expired_without_token [OF none]] same
    by metis
qed

theorem missing_token_is_fetched_again_witness:
  "installation_token app0 (world_notoken 5000) =
     (Inr JNull,
      app0\<lparr>u_jwt_created_at := Some 5000, u_jwt := Some ''eyJ'',
           u_installation_token_created_at := Some 5000, u_installation_token := JNull\<rparr>,
      (world_notoken 5000)\<lparr>reads := 4, opened := [''pem.pem''],
        signed := [(\<lparr>iat = 5000, exp' = 5600, iss = Some ''4711''\<rparr>, RSAJWK ''PEM'', ''RS256'')],
        sent := [exchange_request app0 ''eyJ'']\<rparr>) \<and>
   sent (snd (snd (installation_token
       (app0\<lparr>u_jwt_created_at := Some 5000, u_jwt := Some ''eyJ'',
             u_installation_token_created_at := Some 5000, u_installation_token := JNull\<rparr>)
       world_offline))) = [exchange_request app0 ''eyJ'']"
proof -
  let ?w = "world_notoken 5000"
  let ?a1 = "app0\<lparr>u_jwt_created_at := Some 5000, u_jwt := Some ''eyJ''\<rparr>"
  let ?w2 = "?w\<lparr>reads := 3, opened := [''pem.pem''],
        signed := [(\<lparr>iat = 5000, exp' = 5600, iss = Some ''4711''\<rparr>, RSAJWK ''PEM'', ''RS256'')]\<rparr>"
  let ?a' = "app0\<lparr>u_jwt_created_at := Some 5000, u_jwt := Some ''eyJ'',
           u_installation_token_created_at := Some 5000, u_installation_token := JNull\<rparr>"
  have stale: "installation_token_expired app0 ?w = (True, ?w)"
    by (simp add: installation_token_expired_def app0_def init_def)
  have j: "jwt app0 ?w = (Inr ''eyJ'', ?a1, ?w2)"
    by (simp add: jwt_def jwt_mint_def now_def key_path_def Let_def py_int_def
        app0_def init_def world_notoken_def world_at_def)
  have resp: "net ?w (length (sent ?w)) (exchange_request app0 ''eyJ'')
      = Some \<lparr>status_code = 201, json_body = Some (JObj [])\<rparr>"
    by (simp add: world_notoken_def)
  have body: "json_body \<lparr>status_code = 201, json_body = Some (JObj [])\<rparr> = Some (JObj [])"
    by simp
  have lacks: "''token'' \<notin> fst ` set ([] :: (string \<times> json) list)"
    by simp
  have a': "?a' = ?a1\<lparr>u_installation_token_created_at := Some (clock ?w (reads ?w2)),
                  u_installation_token := JNull\<rparr>"
    by (simp add: world_notoken_def world_at_def)
  have j2: "jwt ?a' world_offline =
      (Inr ''eyJ'', fst (snd (jwt ?a' world_offline)), snd (snd (jwt ?a' world_offline)))"
    by (simp add: jwt_def now_def app0_def init_def world_offline_def world_at_def)
  note inst = missing_token_is_fetched_again [OF stale j resp body lacks a']
  have first: "installation_token app0 ?w =
      (Inr JNull, ?a', ?w2\<lparr>sent := sent ?w @ [exchange_request app0 ''eyJ''],
                        reads := Suc (reads ?w2)\<rparr>)"
    using inst by (rule conjunct1)
  have again: "sent (snd (snd (installation_token ?a' world_offline))) =
      sent world_offline @ [exchange_request app0 ''eyJ'']"
    using inst j2 by blast
  show ?thesis
    using first again
    by (simp add: world_notoken_def world_offline_def world_at_def)
qed

text \<open>
  C4 as stated fails one second after the response without a token: the next read
  sends the exchange request again and returns the token it gets.
\<close>

theorem absent_token_is_not_cached_counterexample:
  "installation_token app0 (world_notoken 5000) =
     (Inr JNull,
      app0\<lparr>u_jwt_created_at := Some 5000, u_jwt := Some ''eyJ'',
           u_installation_token_created_at := Some 5000, u_installation_token := JNull\<rparr>,
      (world_notoken 5000)\<lparr>reads := 4, opened := [''pem.pem''],
        signed := [(\<lparr>iat = 5000, exp' = 5600, iss = Some ''4711''\<rparr>, RSAJWK ''PEM'', ''RS256'')],
        sent := [exchange_request app0 ''eyJ'']\<rparr>) \<and>
   installation_token
     (app0\<lparr>u_jwt_created_at := Some 5000, u_jwt := Some ''eyJ'',
           u_installation_token_created_at := Some 5000, u_installation_token := JNull\<rparr>)
     (world_at 5001) =
     (Inr (JStr ''ghs_new''),
      app0\<lparr>u_jwt_created_at := Some 5000, u_jwt := Some ''eyJ'',
           u_installation_token_created_at := Some 5001,
           u_installation_token := JStr ''ghs_new''\<rparr>,
      (world_at 5001)\<lparr>reads := 2, sent := [exchange_request app0 ''eyJ'']\<rparr>)"
  by (simp add: installation_token.simps base_github_rest_api.simps
      installation_token_expired_def jwt_def jwt_mint_def now_def key_path_def Let_def
      py_str_def py_int_def dict_get_def exchange_request_def github_headers_def
      app0_def init_def world_notoken_def world_at_def)

subsection \<open>C6: reads of \<^verbatim>\<open>installation_token\<close>, young and old\<close>

text \<open>
  C6. Take an object that holds an installation token and its creation time, a sequence
  of reads each made when the clock shows less than 3600 seconds past that creation
  time, and then a read made when it shows more than 3600 seconds past it. Every read
  of the sequence returns the cached token and changes nothing but the count of clock
  readings. The last read mints: when its read of \<^verbatim>\<open>jwt\<close> returns and the exchange answers
  with a JSON object, it returns the \<^verbatim>\<open>token\<close> of that object, caches it and records the
  current time as its creation time.
\<close>

theorem installation_token_cached_then_reminted:
  assumes "u_installation_token a = tok" and "tok \<noteq> JNull"
    and "u_installation_token_created_at a = Some c"
    and "\<forall>v \<in> set ws. clock v (reads v) - c < 3600"
    and "clock w (reads w) - c > 3600"
    and "jwt a (w\<lparr>reads := Suc (reads w)\<rparr>) = (Inr j, a1, w2)"
    and "net w (length (sent w)) (exchange_request a j) = Some response"
    and "json_body response = Some (JObj d)"
  shows "installation_token_calls a (ws @ [w]) =
      map (\<lambda>v. (Inr tok, a, v\<lparr>reads := Suc (reads v)\<rparr>)) ws @
      [(Inr (dict_get d ''token'' JNull),
        a1\<lparr>u_installation_token_created_at := Some (clock w (reads w2)),
           u_installation_token := dict_get d ''token'' JNull\<rparr>,
        w2\<lparr>sent := sent w @ [exchange_request a j], reads := Suc (reads w2)\<rparr>)]"
proof -
  have hits: "installation_token_calls a ws =
      map (\<lambda>v. (Inr tok, a, v\<lparr>reads := Suc (reads v)\<rparr>)) ws"
    and same: "foldl (\<lambda>b v. fst (snd (installation_token b v))) a ws = a"
    using installation_token_hits [of a c ws] assms(1-4) by simp_all
  have stale: "installation_token_expired a w = (True, w\<lparr>reads := Suc (reads w)\<rparr>)"
    using assms(1-3,5) by (simp add: installation_token_expired_def now_def)
  have "installation_token a w =
      (Inr (dict_get d ''token'' JNull),
        a1\<lparr>u_installation_token_created_at := Some (clock w (reads w2)),
           u_installation_token := dict_get d ''token'' JNull\<rparr>,
        w2\<lparr>sent := sent w @ [exchange_request a j], reads := Suc (reads w2)\<rparr>)"
    unfolding installation_token_mint [OF stale assms(6)]
    using assms(7,8) by (simp add: Let_def)
  then show ?thesis
    by (simp add: installation_token_calls_append hits same)
qed

theorem installation_token_cached_then_reminted_witness:
  "installation_token_calls app_inst [world_at 1100, world_offline\<lparr>clock := (\<lambda>n. 4599)\<rparr>,
                                      world_at 5000] =
     [(Inr (JStr ''ghs_old''), app_inst, (world_at 1100)\<lparr>reads := 1\<rparr>),
      (Inr (JStr ''ghs_old''), app_inst, world_offline\<lparr>clock := (\<lambda>n. 4599), reads := 1\<rparr>),
      (Inr (JStr ''ghs_new''),
       app_inst\<lparr>u_jwt_created_at := Some 5000, u_jwt := Some ''eyJ'',
                u_installation_token_created_at := Some 5000,
                u_installation_token := JStr ''ghs_new''\<rparr>,
       (world_at 5000)\<lparr>reads := 5, opened := [''pem.pem''],
         signed := [(\<lparr>iat = 5000, exp' = 5600, iss = Some ''4711''\<rparr>, RSAJWK ''PEM'', ''RS256'')],
         sent := [exchange_request app_inst ''eyJ'']\<rparr>)]"
proof -
  let ?ws = "[world_at 1100, world_offline\<lparr>clock := (\<lambda>n. 4599)\<rparr>]"
  let ?w = "world_at 5000"
  let ?a1 = "app_inst\<lparr>u_jwt_created_at := Some 5000, u_jwt := Some ''eyJ''\<rparr>"
  let ?w2 = "?w\<lparr>reads := 4, opened := [''pem.pem''],
        signed := [(\<lparr>iat = 5000, exp' = 5600, iss = Some ''4711''\<rparr>, RSAJWK ''PEM'', ''RS256'')]\<rparr>"
  have tok: "u_installation_token app_inst = JStr ''ghs_old''"
    and c: "u_installation_token_created_at app_inst = Some 1000"
    by (simp_all add: app_inst_def)
  have some: "JStr ''ghs_old'' \<noteq> JNull"
    by simp
  have young: "\<forall>v \<in> set ?ws. clock v (reads v) - 1000 < 3600"
    by (simp add: world_at_def world_offline_def)
  have old: "clock ?w (reads ?w) - 1000 > 3600"
    by (simp add: world_at_def)
  have j: "jwt app_inst (?w\<lparr>reads := Suc (reads ?w)\<rparr>) = (Inr ''eyJ'', ?a1, ?w2)"
    by (simp add: jwt_def jwt_mint_def now_def key_path_def Let_def py_int_def app_inst_def
        app0_def init_def world_at_def)
  have resp: "net ?w (length (sent ?w)) (exchange_request app_inst ''eyJ'')
      = Some \<lparr>status_code = 201, json_body = Some (JObj [(''token'', JStr ''ghs_new'')])\<rparr>"
    by (simp add: world_at_def exchange_request_def)
  have body: "json_body \<lparr>status_code = 201,
        json_body = Some (JObj [(''token'', JStr ''ghs_new'')])\<rparr>
      = Some (JObj [(''token'', JStr ''ghs_new'')])"
    by simp
  have r: "reads (world_at 1100) = 0" "reads (world_offline\<lparr>clock := (\<lambda>n. 4599)\<rparr>) = 0"
    "clock ?w n = 5000" "sent ?w = []" "reads ?w2 = 4" for n
    by (simp_all add: world_at_def world_offline_def)
  have "installation_token_calls app_inst (?ws @ [?w]) =
      [(Inr (JStr ''ghs_old''), app_inst, (world_at 1100)\<lparr>reads := 1\<rparr>),
      (Inr (JStr ''ghs_old''), app_inst, world_offline\<lparr>clock := (\<lambda>n. 4599), reads := 1\<rparr>),
      (Inr (JStr ''ghs_new''),
       app_inst\<lparr>u_jwt_created_at := Some 5000, u_jwt := Some ''eyJ'',
                u_installation_token_created_at := Some 5000,
                u_installation_token := JStr ''ghs_new''\<rparr>,
       (world_at 5000)\<lparr>reads := 5, opened := [''pem.pem''],
         signed := [(\<lparr>iat = 5000, exp' = 5600, iss = Some ''4711''\<rparr>, RSAJWK ''PEM'', ''RS256'')],
         sent := [exchange_request app_inst ''eyJ'']\<rparr>)]"
    unfolding installation_token_cached_then_reminted [OF tok some c young old j resp body]
    by (simp add: r dict_get_def)
  then show ?thesis
    by (simp only: append_Cons append_Nil)
qed

subsection \<open>C10: the headers of every request\<close>

text \<open>
  C10. For every url, method and \<^verbatim>\<open>auth_type\<close>, every request that a call of
  \<^verbatim>\<open>base_github_rest_api\<close> sends, the token exchange inside it included, carries exactly
  the three headers \<^verbatim>\<open>Accept\<close>, \<^verbatim>\<open>Authorization\<close> and \<^verbatim>\<open>X-GitHub-Api-Version\<close> with a bearer
  token. With \<^verbatim>\<open>"jwt"\<close> the call's own request is sent when \<^verbatim>\<open>jwt\<close> returns and its
  bearer is that token; with \<^verbatim>\<open>"install_token"\<close> it is sent when \<^verbatim>\<open>installation_token\<close>
  returns and its bearer is what \<^verbatim>\<open>str\<close> makes of the value returned.
\<close>

theorem every_request_carries_the_three_headers:
  assumes "base_github_rest_api a w url method auth_type = (r, a', w')"
  shows "(\<exists>new. sent w' = sent w @ new \<and>
            (\<forall>q \<in> set new. \<exists>tok. req_headers q = github_headers tok)) \<and>
    (auth_type = ''jwt'' \<longrightarrow>
       (\<forall>tok a1 w1. jwt a w = (Inr tok, a1, w1) \<longrightarrow>
          sent w' = sent w @ [\<lparr>req_method = method, req_url = url,
                                req_headers = github_headers tok\<rparr>])) \<and>
    (auth_type = ''install_token'' \<longrightarrow>
       (\<forall>v a1 w1. installation_token a w = (Inr v, a1, w1) \<longrightarrow>
          sent w' = sent w1 @ [\<lparr>req_method = method, req_url = url,
                                 req_headers = github_headers (py_str w v)\<rparr>]))"
proof -
  consider (jwt) "auth_type = ''jwt''" | (inst) "auth_type = ''install_token''"
    | (other) "auth_type \<noteq> ''jwt''" "auth_type \<noteq> ''install_token''"
    by blast
  then show ?thesis
  proof cases
    case jwt
    obtain rj a1 w1 where j: "jwt a w = (rj, a1, w1)"
      by (cases "jwt a w") auto
    show ?thesis
    proof (cases rj)
      case (Inl e)
      then have "w' = w1"
        using base_jwt_raises [of a w e a1 w1 url "method"] j jwt assms by simp
      then have "sent w' = sent w @ []"
        using jwt_world [OF j] by simp
      then show ?thesis
        using jwt j Inl by auto
    next
      case (Inr tok)
      then have "jwt a w = (Inr tok, a1, w1)"
        using j by simp
      from base_jwt_returns [OF this, of url "method"] assms jwt
      have "sent w' = sent w @ [\<lparr>req_method = method, req_url = url,
                                req_headers = github_headers tok\<rparr>]"
        by (auto simp: Let_def split: option.splits)
      then show ?thesis
        using jwt j Inr by auto
    qed
  next
    case inst
    obtain ri a1 w1 where i: "installation_token a w = (ri, a1, w1)"
      by (cases "installation_token a w") auto
    from installation_token_world [OF i]
    obtain old where old: "sent w1 = sent w @ old"
      "\<forall>q \<in> set old. \<exists>tok. req_headers q = github_headers tok"
      and repr: "py_repr w1 = py_repr w"
      using exchange_request_headers by (metis append_Nil2 empty_iff empty_set set_ConsD)
    show ?thesis
    proof (cases ri)
      case (Inl e)
      then have "w' = w1"
        using assms inst i by (simp add: base_install_token)
      then show ?thesis
        using old inst i Inl by auto
    next
      case (Inr v)
      have str: "py_str w1 v = py_str w v"
        using repr by (simp add: py_str_def split: json.splits)
      have "sent w' = sent w1 @ [\<lparr>req_method = method, req_url = url,
                                 req_headers = github_headers (py_str w v)\<rparr>]"
        using assms inst i Inr str
        by (auto simp: base_install_token Let_def split: option.splits)
      then show ?thesis
        using old inst i Inr by auto
    qed
  next
    case other
    then have "w' = w"
      using assms by (simp add: base_github_rest_api.simps)
    then show ?thesis
      using other by simp
  qed
qed

theorem every_request_carries_the_three_headers_witness:
  "sent (snd (snd (base_github_rest_api app0 (world_at 5000)
           ''https://api.github.com/installation/repositories'' ''GET'' ''install_token''))) =
     [\<lparr>req_method = ''POST'',
       req_url = ''https://api.github.com/app/installations/12345/access_tokens'',
       req_headers = [(''Accept'', ''application/vnd.github+json''),
                      (''Authorization'', ''Bearer eyJ''),
                      (''X-GitHub-Api-Version'', ''2022-11-28'')]\<rparr>,
      \<lparr>req_method = ''GET'',
       req_url = ''https://api.github.com/installation/repositories'',
       req_headers = [(''Accept'', ''application/vnd.github+json''),
                      (''Authorization'', ''Bearer ghs_new''),
                      (''X-GitHub-Api-Version'', ''2022-11-28'')]\<rparr>]"
proof -
  let ?w = "world_at 5000"
  let ?a1 = "app0\<lparr>u_jwt_created_at := Some 5000, u_jwt := Some ''eyJ'',
                  u_installation_token_created_at := Some 5000,
                  u_installation_token := JStr ''ghs_new''\<rparr>"
  let ?w1 = "?w\<lparr>reads := 4, opened := [''pem.pem''],
        signed := [(\<lparr>iat = 5000, exp' = 5600, iss = Some ''4711''\<rparr>, RSAJWK ''PEM'', ''RS256'')],
        sent := [exchange_request app0 ''eyJ'']\<rparr>"
  have tok: "installation_token app0 ?w = (Inr (JStr ''ghs_new''), ?a1, ?w1)"
    by (simp add: installation_token.simps base_github_rest_api.simps
      installation_token_expired_def jwt_def jwt_mint_def now_def key_path_def Let_def
      py_str_def py_int_def dict_get_def exchange_request_def github_headers_def
      app0_def init_def world_at_def)
  have "sent (snd (snd (base_github_rest_api app0 ?w
           ''https://api.github.com/installation/repositories'' ''GET'' ''install_token''))) =
      sent ?w1 @ [\<lparr>req_method = ''GET'',
        req_url = ''https://api.github.com/installation/repositories'',
        req_headers = github_headers (py_str ?w (JStr ''ghs_new''))\<rparr>]"
    using every_request_carries_the_three_headers [OF outcome_parts] tok by blast
  then show ?thesis
    by (simp add: exchange_request_def github_headers_def py_str_def app0_def init_def)
qed

end
